theory Spec2Isabelle
  imports Complex_Main
begin

section \<open>The JSONL flow writer of \<^verbatim>\<open>scripts/mitm_jsonl_writer.py\<close>\<close>

text \<open>
  The addon keeps one output file open and appends one JSON line to it for every HTTP
  response the proxy sees. A small HTTP API (port 8083) switches the output to a file of
  its own for a task, or back to the default file.

  The model is sequential: every method body that runs under \<^verbatim>\<open>self.lock\<close> is one
  function from the world before the call to the outcome and the world after it. A Python
  exception does not undo the assignments made before it, so a call that raises returns
  the world as the exception left it. A file object is modelled with its buffer: what
  \<^verbatim>\<open>write\<close> has taken and the operating system has refused stays in the object and
  goes to the file with a later write or when the object is closed.
\<close>

subsection \<open>Values, errors and the platform\<close>

text \<open>The exceptions the code can meet; all of them are subclasses of \<^verbatim>\<open>Exception\<close>.\<close>

datatype py_error =
    OSError           \<comment> \<open>mkdir, open or write refused by the operating system\<close>
  | ValueError        \<comment> \<open>I/O operation on a closed file; malformed request body\<close>
  | AttributeError    \<comment> \<open>method call on \<^verbatim>\<open>None\<close> or on a JSON value that is no object\<close>
  | TypeError         \<comment> \<open>\<^verbatim>\<open>json.dumps\<close> on a value it cannot serialise\<close>

datatype 'a outcome = Returned 'a | Raised py_error

text \<open>The values that appear in the dictionaries handed to \<^verbatim>\<open>json.dumps\<close>.\<close>

datatype jvalue = JNull | JStr string | JInt int | JFloat real

type_synonym jdict = "(string \<times> jvalue) list"

text \<open>
  A Python file object, as \<^verbatim>\<open>open(path, "a", buffering=1)\<close> makes it: the path it
  was opened on, whether it has been closed, and its buffer, the text that \<^verbatim>\<open>write\<close>
  has taken and the operating system has not yet accepted.
\<close>

record file_obj =
  f_name :: string
  f_closed :: bool
  f_pending :: string

text \<open>What the program prints, one constructor for each of its messages.\<close>

datatype log_line =
    LogStarted string
  | LogSwitched string string
  | LogCleared "string option"
  | LogFlow string jvalue jvalue
  | LogError py_error
  | LogClosed
  | LogApiError py_error

text \<open>
  What lies outside the repository: the file system and the standard library. The
  regular files with their contents and the directories are state; whether the operating
  system refuses a \<^verbatim>\<open>mkdir\<close>, an \<^verbatim>\<open>open\<close> or a \<^verbatim>\<open>write\<close>, and
  what \<^verbatim>\<open>json.dumps(record, ensure_ascii=False)\<close> answers, are parameters, and so
  are the size of a file object's buffer and whether standard output refuses a line that
  the data-plane callback prints. The lines printed by the writer's other methods and by
  the HTTP handler are taken as accepted.
\<close>

record platform =
  files :: "string \<Rightarrow> string option"
  dirs :: "string set"
  mkdir_refused :: "string \<Rightarrow> bool"
  open_refused :: "string \<Rightarrow> bool"
  write_refused :: "string \<Rightarrow> bool"
  buffer_size :: nat
  stdout_refused :: "log_line \<Rightarrow> bool"
  json_dumps :: "jdict \<Rightarrow> py_error + string"

subsection \<open>Paths, as \<^verbatim>\<open>pathlib\<close> reads them\<close>

fun split_sep :: "char \<Rightarrow> string \<Rightarrow> string list" where
  "split_sep c [] = [[]]"
| "split_sep c (x # xs) =
     (if x = c then [] # split_sep c xs
      else (case split_sep c xs of [] \<Rightarrow> [[x]] | p # ps \<Rightarrow> (x # p) # ps))"

text \<open>A POSIX path keeps its components other than the empty one and \<^verbatim>\<open>.\<close>;
  \<^verbatim>\<open>..\<close> is kept as it is.\<close>

definition path_parts :: "string \<Rightarrow> string list" where
  "path_parts p = filter (\<lambda>s. s \<noteq> [] \<and> s \<noteq> ''.'') (split_sep CHR ''/'' p)"

definition path_root :: "string \<Rightarrow> string" where
  "path_root p =
     (if take 2 p = ''//'' \<and> take 3 p \<noteq> ''///'' then ''//''
      else if take 1 p = ''/'' then ''/'' else [])"

fun join_parts :: "string list \<Rightarrow> string" where
  "join_parts [] = []"
| "join_parts [p] = p"
| "join_parts (p # q # ps) = p @ ''/'' @ join_parts (q # ps)"

definition render_path :: "string \<Rightarrow> string list \<Rightarrow> string" where
  "render_path rt ps = (if rt = [] \<and> ps = [] then ''.'' else rt @ join_parts ps)"

text \<open>\<^verbatim>\<open>str(Path(p).parent)\<close>\<close>

definition path_parent :: "string \<Rightarrow> string" where
  "path_parent p = render_path (path_root p) (butlast (path_parts p))"

fun nonempty_prefixes :: "'a list \<Rightarrow> 'a list list" where
  "nonempty_prefixes [] = []"
| "nonempty_prefixes (x # xs) = [x] # map ((#) x) (nonempty_prefixes xs)"

text \<open>The directory \<^verbatim>\<open>d\<close> and every ancestor of it, which
  \<^verbatim>\<open>mkdir(parents=True, exist_ok=True)\<close> leaves existing.\<close>

definition dir_chain :: "string \<Rightarrow> string list" where
  "dir_chain d = map (render_path (path_root d)) (nonempty_prefixes (path_parts d))"

subsection \<open>The operating-system calls\<close>

text \<open>\<^verbatim>\<open>Path(file_path).parent.mkdir(parents=True, exist_ok=True)\<close>\<close>

definition mkdir_parent :: "string \<Rightarrow> platform \<Rightarrow> unit outcome \<times> platform" where
  "mkdir_parent file_path os =
     (let d = path_parent file_path in
      if mkdir_refused os d then (Raised OSError, os)
      else (Returned (), os\<lparr>dirs := dirs os \<union> set (dir_chain d)\<rparr>))"

text \<open>\<^verbatim>\<open>open(file_path, "a", buffering=1)\<close>: a file that exists keeps its content, a
  missing one is created empty. Files are known by the path string they were opened with.\<close>

definition open_append :: "string \<Rightarrow> platform \<Rightarrow> file_obj outcome \<times> platform" where
  "open_append file_path os =
     (if open_refused os file_path then (Raised OSError, os)
      else (Returned \<lparr>f_name = file_path, f_closed = False, f_pending = []\<rparr>,
            os\<lparr>files := (files os)(file_path \<mapsto>
                   (case files os file_path of None \<Rightarrow> [] | Some c \<Rightarrow> c))\<rparr>))"

text \<open>
  \<^verbatim>\<open>file_handle.write(text)\<close> followed by \<^verbatim>\<open>file_handle.flush()\<close>, for a text
  that ends with a newline, on a line-buffered file object. A closed object raises and
  takes nothing. An open one puts the text behind what its buffer holds and hands the
  buffer to the operating system. When that is accepted, the file ends with the buffer's
  text and the buffer is empty. When it is refused, \<^verbatim>\<open>write\<close> raises and the buffer
  keeps what it held, and the new text as well if both fit into it; \<^verbatim>\<open>flush\<close> is
  not reached.
\<close>

definition write_flush ::
  "file_obj option \<Rightarrow> string \<Rightarrow> platform \<Rightarrow> unit outcome \<times> file_obj option \<times> platform" where
  "write_flush fh text os =
     (case fh of
        None \<Rightarrow> (Raised AttributeError, None, os)
      | Some h \<Rightarrow>
          if f_closed h then (Raised ValueError, Some h, os)
          else if write_refused os (f_name h) then
            (Raised OSError,
             Some (h\<lparr>f_pending :=
                      (if length (f_pending h) + length text \<le> buffer_size os
                       then f_pending h @ text else f_pending h)\<rparr>),
             os)
          else
            (Returned (),
             Some (h\<lparr>f_pending := []\<rparr>),
             os\<lparr>files := (files os)(f_name h \<mapsto>
                    (case files os (f_name h) of None \<Rightarrow> [] | Some c \<Rightarrow> c)
                    @ f_pending h @ text)\<rparr>))"

text \<open>
  \<^verbatim>\<open>close()\<close> on a file object: an open object hands its buffer to the operating
  system, and is closed whether that is accepted or not; what was refused is lost. A
  closed object stays as it is (it has no buffer).
\<close>

definition close_file :: "file_obj \<Rightarrow> platform \<Rightarrow> file_obj \<times> platform" where
  "close_file h os =
     (h\<lparr>f_closed := True, f_pending := []\<rparr>,
      if f_closed h \<or> f_pending h = [] \<or> write_refused os (f_name h) then os
      else os\<lparr>files := (files os)(f_name h \<mapsto>
                 (case files os (f_name h) of None \<Rightarrow> [] | Some c \<Rightarrow> c) @ f_pending h)\<rparr>)"

subsection \<open>The writer\<close>

text \<open>The attributes of \<^verbatim>\<open>JSONLFlowWriter\<close>. \<^verbatim>\<open>default_output_path\<close> is assigned
  once in \<^verbatim>\<open>__init__\<close> and never again: it is the constant below.\<close>

record writer =
  current_task_id :: "string option"
  current_file_path :: "string option"
  file_attr :: "file_obj option"   \<comment> \<open>\<^verbatim>\<open>self.file\<close>\<close>

definition default_output_path :: string where
  "default_output_path = ''/results/flows.jsonl''"

record world =
  os :: platform
  self :: writer
  stdout :: "log_line list"

definition print :: "log_line \<Rightarrow> world \<Rightarrow> world" where
  "print l w = w\<lparr>stdout := stdout w @ [l]\<rparr>"

text \<open>The line is printed when standard output accepts it; otherwise \<^verbatim>\<open>print\<close>
  raises. Only the data-plane callback prints this way.\<close>

definition print_line :: "log_line \<Rightarrow> world \<Rightarrow> unit outcome \<times> world" where
  "print_line l w =
     (if stdout_refused (os w) l then (Raised OSError, w) else (Returned (), print l w))"

text \<open>\<^verbatim>\<open>if self.file is not None:\<close> \<^verbatim>\<open>self.file.close()\<close> inside
  \<^verbatim>\<open>try: ... except: pass\<close> (lines 43 to 47): whatever \<^verbatim>\<open>close\<close> does, the
  object is closed afterwards and nothing is raised.\<close>

definition close_quietly :: "world \<Rightarrow> world" where
  "close_quietly w =
     (case file_attr (self w) of
        None \<Rightarrow> w
      | Some h \<Rightarrow>
          (case close_file h (os w) of
             (h2, os2) \<Rightarrow> w\<lparr>os := os2, self := (self w)\<lparr>file_attr := Some h2\<rparr>\<rparr>))"

text \<open>\<^verbatim>\<open>_open_file\<close>: the old file is closed first; then the directory is made and the
  new file opened, and only then are \<^verbatim>\<open>self.file\<close> and
  \<^verbatim>\<open>self.current_file_path\<close> assigned.\<close>

definition open_file :: "string \<Rightarrow> world \<Rightarrow> unit outcome \<times> world" where
  "open_file file_path w =
     (let w1 = close_quietly w in
      case mkdir_parent file_path (os w1) of
        (Raised e, os2) \<Rightarrow> (Raised e, w1\<lparr>os := os2\<rparr>)
      | (Returned u, os2) \<Rightarrow>
          (case open_append file_path os2 of
             (Raised e, os3) \<Rightarrow> (Raised e, w1\<lparr>os := os3\<rparr>)
           | (Returned h, os3) \<Rightarrow>
               (Returned (),
                w1\<lparr>os := os3,
                   self := (self w1)\<lparr>file_attr := Some h, current_file_path := Some file_path\<rparr>\<rparr>)))"

definition task_output_path :: "string \<Rightarrow> string" where
  "task_output_path task_id = ''/results/'' @ task_id @ ''/flows.jsonl''"

definition set_output_task :: "string \<Rightarrow> world \<Rightarrow> unit outcome \<times> world" where
  "set_output_task task_id w =
     (let w1 = w\<lparr>self := (self w)\<lparr>current_task_id := Some task_id\<rparr>\<rparr> in
      case open_file (task_output_path task_id) w1 of
        (Raised e, w2) \<Rightarrow> (Raised e, w2)
      | (Returned u, w2) \<Rightarrow>
          (Returned (), print (LogSwitched task_id (task_output_path task_id)) w2))"

definition clear_output_task :: "world \<Rightarrow> unit outcome \<times> world" where
  "clear_output_task w =
     (let old_task_id = current_task_id (self w);
          w1 = w\<lparr>self := (self w)\<lparr>current_task_id := None\<rparr>\<rparr> in
      case open_file default_output_path w1 of
        (Raised e, w2) \<Rightarrow> (Raised e, w2)
      | (Returned u, w2) \<Rightarrow> (Returned (), print (LogCleared old_task_id) w2))"

definition get_current_task :: "world \<Rightarrow> string option \<times> string option" where
  "get_current_task w = (current_task_id (self w), current_file_path (self w))"

text \<open>\<^verbatim>\<open>__init__\<close>: the directory of the default file is made, the attributes are
  set to \<^verbatim>\<open>None\<close>, and the default file is opened.\<close>

definition init :: "platform \<Rightarrow> unit outcome \<times> world" where
  "init os0 =
     (case mkdir_parent default_output_path os0 of
        (Raised e, os1) \<Rightarrow>
          (Raised e,
           \<lparr>os = os1,
            self = \<lparr>current_task_id = None, current_file_path = None, file_attr = None\<rparr>,
            stdout = []\<rparr>)
      | (Returned u, os1) \<Rightarrow>
          (case open_file default_output_path
                  \<lparr>os = os1,
                   self = \<lparr>current_task_id = None, current_file_path = None, file_attr = None\<rparr>,
                   stdout = []\<rparr> of
             (Raised e, w2) \<Rightarrow> (Raised e, w2)
           | (Returned u, w2) \<Rightarrow> (Returned (), print (LogStarted default_output_path) w2)))"


subsection \<open>The data plane: one line per flow\<close>

text \<open>What the callback reads of \<^verbatim>\<open>flow.request\<close>.\<close>

record request =
  timestamp_start :: real
  req_method :: string     \<comment> \<open>\<^verbatim>\<open>flow.request.method\<close>\<close>
  scheme :: string
  host :: string
  port :: int
  req_path :: string       \<comment> \<open>\<^verbatim>\<open>flow.request.path\<close>\<close>
  pretty_url :: string

text \<open>\<^verbatim>\<open>if current_task:\<close> on a value that is \<^verbatim>\<open>None\<close> or a string: the source's
  test for "there is an active task".\<close>

definition truthy :: "string option \<Rightarrow> bool" where
  "truthy t = (case t of None \<Rightarrow> False | Some s \<Rightarrow> s \<noteq> [])"

definition build_record :: "string option \<Rightarrow> request \<Rightarrow> jdict" where
  "build_record current_task rq =
     [(''ts'', JFloat (timestamp_start rq)),
      (''method'', JStr (req_method rq)),
      (''scheme'', JStr (scheme rq)),
      (''host'', JStr (host rq)),
      (''port'', JInt (port rq)),
      (''path'', JStr (req_path rq)),
      (''url'', JStr (pretty_url rq))]
     @ (if truthy current_task then [(''task_id'', JStr (the current_task))] else [])"

text \<open>The body of the \<^verbatim>\<open>try\<close> in \<^verbatim>\<open>response\<close>. The file object written to
  is the one \<^verbatim>\<open>self.file\<close> refers to, so what \<^verbatim>\<open>write\<close> does to its buffer is
  seen through \<^verbatim>\<open>self.file\<close>.\<close>

definition response_try :: "request \<Rightarrow> world \<Rightarrow> unit outcome \<times> world" where
  "response_try rq w =
     (let current_task = current_task_id (self w);
          file_handle = file_attr (self w);
          record = build_record current_task rq in
      case json_dumps (os w) record of
        Inl e \<Rightarrow> (Raised e, w)
      | Inr json_line \<Rightarrow>
          (case write_flush file_handle (json_line @ [CHR 0x0A]) (os w) of
             (Raised e, fh2, os2) \<Rightarrow>
               (Raised e, w\<lparr>os := os2, self := (self w)\<lparr>file_attr := fh2\<rparr>\<rparr>)
           | (Returned u, fh2, os2) \<Rightarrow>
               (if truthy current_task
                then print_line
                       (LogFlow (the current_task) (JStr (req_method rq)) (JStr (pretty_url rq)))
                       (w\<lparr>os := os2, self := (self w)\<lparr>file_attr := fh2\<rparr>\<rparr>)
                else (Returned (), w\<lparr>os := os2, self := (self w)\<lparr>file_attr := fh2\<rparr>\<rparr>))))"

text \<open>\<^verbatim>\<open>response\<close>: the \<^verbatim>\<open>try\<close> with its \<^verbatim>\<open>except Exception as e\<close>, whose
  body is the \<^verbatim>\<open>print\<close> of line 120. Nothing guards that \<^verbatim>\<open>print\<close>: when it
  raises, \<^verbatim>\<open>response\<close> raises.\<close>

definition response :: "request \<Rightarrow> world \<Rightarrow> unit outcome \<times> world" where
  "response rq w =
     (case response_try rq w of
        (Raised e, w2) \<Rightarrow> print_line (LogError e) w2
      | (Returned u, w2) \<Rightarrow> (Returned (), w2))"

subsection \<open>The control plane: \<^verbatim>\<open>TaskOutputHandler\<close>\<close>

text \<open>
  What lines 148 to 150 make of a request body: they raise (a \<^verbatim>\<open>Content-Length\<close>
  that is no integer, bytes that are not UTF-8, text that is not JSON), or they yield a
  JSON value that is no object, or an object, of which the handler reads only
  \<^verbatim>\<open>data.get("task_id")\<close>: \<^verbatim>\<open>None\<close> for an object without the key (the empty
  body is read as \<^verbatim>\<open>{}\<close>) or with \<^verbatim>\<open>null\<close>, its value for a JSON string. The API's
  contract for the key is a string; other JSON types are not modelled.
\<close>

datatype request_body = Unreadable py_error | NonObject | Object "string option"

text \<open>The handler class defines \<^verbatim>\<open>do_POST\<close> and \<^verbatim>\<open>do_GET\<close> and no other
  method; each is a \<^verbatim>\<open>try\<close> whose \<^verbatim>\<open>except Exception\<close> prints the error and
  answers HTTP 500 with no body. A response is the status line and the dictionary sent as
  its body.\<close>

record http_request =
  http_path :: string      \<comment> \<open>\<^verbatim>\<open>self.path\<close>\<close>
  http_body :: request_body

record http_response =
  status :: nat
  body :: "jdict option"   \<comment> \<open>the dictionary whose \<^verbatim>\<open>json.dumps\<close> text is sent, if any\<close>

definition do_POST_try :: "http_request \<Rightarrow> world \<Rightarrow> http_response outcome \<times> world" where
  "do_POST_try rq w =
     (case http_body rq of
        Unreadable e \<Rightarrow> (Raised e, w)
      | data \<Rightarrow>
          if http_path rq = ''/set_output'' then
            (case data of
               Object task_id \<Rightarrow>
                 if truthy task_id then
                   (case set_output_task (the task_id) w of
                      (Raised e, w2) \<Rightarrow> (Raised e, w2)
                    | (Returned u, w2) \<Rightarrow>
                        (Returned \<lparr>status = 200,
                                   body = Some [(''status'', JStr ''ok''),
                                                (''task_id'', JStr (the task_id))]\<rparr>, w2))
                 else
                   (Returned \<lparr>status = 400,
                              body = Some [(''error'', JStr ''task_id required'')]\<rparr>, w)
             | _ \<Rightarrow> (Raised AttributeError, w))
          else if http_path rq = ''/clear_output'' then
            (case clear_output_task w of
               (Raised e, w2) \<Rightarrow> (Raised e, w2)
             | (Returned u, w2) \<Rightarrow>
                 (Returned \<lparr>status = 200, body = Some [(''status'', JStr ''ok'')]\<rparr>, w2))
          else (Returned \<lparr>status = 404, body = None\<rparr>, w))"

definition do_POST :: "http_request \<Rightarrow> world \<Rightarrow> http_response \<times> world" where
  "do_POST rq w =
     (case do_POST_try rq w of
        (Raised e, w2) \<Rightarrow> (\<lparr>status = 500, body = None\<rparr>, print (LogApiError e) w2)
      | (Returned r, w2) \<Rightarrow> (r, w2))"

definition jopt :: "string option \<Rightarrow> jvalue" where
  "jopt v = (case v of None \<Rightarrow> JNull | Some s \<Rightarrow> JStr s)"

definition do_GET :: "http_request \<Rightarrow> world \<Rightarrow> http_response \<times> world" where
  "do_GET rq w =
     (if http_path rq = ''/current_task'' then
        (case get_current_task w of
           (task_id, output_path) \<Rightarrow>
             (\<lparr>status = 200,
               body = Some [(''task_id'', jopt task_id), (''output_path'', jopt output_path)]\<rparr>, w))
      else (\<lparr>status = 404, body = None\<rparr>, w))"

subsection \<open>Auxiliary predicates and example worlds\<close>

text \<open>The operating system refuses the \<^verbatim>\<open>mkdir\<close> or the \<^verbatim>\<open>open\<close> that
  \<^verbatim>\<open>_open_file\<close> makes for the path.\<close>

definition switch_refused :: "string \<Rightarrow> platform \<Rightarrow> bool" where
  "switch_refused p e = (mkdir_refused e (path_parent p) \<or> open_refused e p)"

text \<open>The theorems hold for every encoder. The examples run with one that writes the
  keys of the dictionary only.\<close>

definition example_dumps :: "jdict \<Rightarrow> py_error + string" where
  "example_dumps r = Inr (''{'' @ concat (map (\<lambda>kv. fst kv @ '';'') r) @ ''}'')"

text \<open>An empty file system on which every call is accepted.\<close>

definition plain_os :: platform where
  "plain_os =
     \<lparr>files = Map.empty, dirs = {},
      mkdir_refused = (\<lambda>d. False), open_refused = (\<lambda>p. False), write_refused = (\<lambda>p. False),
      buffer_size = 8192, stdout_refused = (\<lambda>l. False), json_dumps = example_dumps\<rparr>"

text \<open>The writer after \<^verbatim>\<open>__init__\<close> on that file system: no task, the default file
  open.\<close>

definition idle_world :: world where
  "idle_world =
     \<lparr>os = plain_os\<lparr>files := [''/results/flows.jsonl'' \<mapsto> []], dirs := {''/results''}\<rparr>,
      self = \<lparr>current_task_id = None, current_file_path = Some ''/results/flows.jsonl'',
              file_attr = Some \<lparr>f_name = ''/results/flows.jsonl'', f_closed = False,
                                f_pending = []\<rparr>\<rparr>,
      stdout = [LogStarted ''/results/flows.jsonl'']\<rparr>"

text \<open>The same writer on a file system where no directory can be made below
  \<^verbatim>\<open>/results\<close> any more.\<close>

definition stuck_world :: world where
  "stuck_world = idle_world\<lparr>os := (os idle_world)\<lparr>mkdir_refused := (\<lambda>d. d \<noteq> ''/results'')\<rparr>\<rparr>"

text \<open>The same writer once the file system lets no file be opened any more.\<close>

definition sealed_world :: world where
  "sealed_world = idle_world\<lparr>os := (os idle_world)\<lparr>open_refused := (\<lambda>p. True)\<rparr>\<rparr>"

text \<open>The same writer where the file of task \<^verbatim>\<open>t1\<close> already holds a line.\<close>

definition old_world :: world where
  "old_world = idle_world\<lparr>os := (os idle_world)\<lparr>files :=
      [''/results/flows.jsonl'' \<mapsto> [], ''/results/t1/flows.jsonl'' \<mapsto> ''old'' @ [CHR 0x0A]]\<rparr>\<rparr>"

text \<open>The request \<^verbatim>\<open>GET http://a.example/x\<close>.\<close>

definition example_request :: request where
  "example_request =
     \<lparr>timestamp_start = 1700000000, req_method = ''GET'', scheme = ''http'', host = ''a.example'',
      port = 80, req_path = ''/x'', pretty_url = ''http://a.example/x''\<rparr>"



text \<open>The writer after a flow was observed while the disk was full, once the disk takes
  writes again: the line of that flow is in the buffer of the stream.\<close>

definition pending_world :: world where
  "pending_world =
     idle_world
       \<lparr>self := (self idle_world)\<lparr>file_attr :=
          Some \<lparr>f_name = ''/results/flows.jsonl'', f_closed = False,
                f_pending = ''{ts;method;scheme;host;port;path;url;}'' @ [CHR 0x0A]\<rparr>\<rparr>,
        stdout := [LogStarted ''/results/flows.jsonl'', LogError OSError]\<rparr>"


text \<open>The installed stream, if there is one and it is open, has an empty buffer.\<close>

definition nothing_pending :: "writer \<Rightarrow> bool" where
  "nothing_pending s =
     (case file_attr s of None \<Rightarrow> True | Some h \<Rightarrow> f_closed h \<or> f_pending h = [])"

text \<open>The path the claims say a task identifier implies, in their words: the task's file
  when an identifier is set, the default file when none is.\<close>

definition path_implied_by :: "string option \<Rightarrow> string" where
  "path_implied_by task =
     (case task of None \<Rightarrow> ''/results/flows.jsonl'' | Some t \<Rightarrow> ''/results/'' @ t @ ''/flows.jsonl'')"

text \<open>The invariant of the router state: a stream is installed, and its path, which is
  also the recorded output path, is the one the current task identifier implies.\<close>

definition router_invariant :: "writer \<Rightarrow> bool" where
  "router_invariant s =
     (case file_attr s of
        None \<Rightarrow> False
      | Some h \<Rightarrow> f_name h = path_implied_by (current_task_id s) \<and>
                  current_file_path s = Some (path_implied_by (current_task_id s)))"

section \<open>Properties\<close>

subsection \<open>What the operations return and leave behind\<close>

lemma close_quietly_params:
  "mkdir_refused (os (close_quietly w)) = mkdir_refused (os w)"
  "open_refused (os (close_quietly w)) = open_refused (os w)"
  "write_refused (os (close_quietly w)) = write_refused (os w)"
  "buffer_size (os (close_quietly w)) = buffer_size (os w)"
  "stdout_refused (os (close_quietly w)) = stdout_refused (os w)"
  "json_dumps (os (close_quietly w)) = json_dumps (os w)"
  "dirs (os (close_quietly w)) = dirs (os w)"
  "stdout (close_quietly w) = stdout w"
  by (simp_all add: close_quietly_def close_file_def split: option.split)

lemma self_close_quietly:
  "current_task_id (self (close_quietly w)) = current_task_id (self w)"
  "current_file_path (self (close_quietly w)) = current_file_path (self w)"
  "file_attr (self (close_quietly w)) =
     map_option (\<lambda>h. h\<lparr>f_closed := True, f_pending := []\<rparr>) (file_attr (self w))"
  by (simp_all add: close_quietly_def close_file_def split: option.split)

lemma files_close_quietly:
  "files (os (close_quietly w)) =
     (case file_attr (self w) of
        None \<Rightarrow> files (os w)
      | Some h \<Rightarrow>
          if f_closed h \<or> f_pending h = [] \<or> write_refused (os w) (f_name h) then files (os w)
          else (files (os w))(f_name h \<mapsto>
                 (case files (os w) (f_name h) of None \<Rightarrow> [] | Some c \<Rightarrow> c) @ f_pending h))"
  by (simp add: close_quietly_def close_file_def split: option.split)

lemma files_grow_close_quietly:
  "files (os w) p = Some c \<Longrightarrow> \<exists>d. files (os (close_quietly w)) p = Some (c @ d)"
  by (auto simp add: files_close_quietly split: option.split)

lemma os_close_quietly_nothing_pending:
  "nothing_pending (self w) \<Longrightarrow> os (close_quietly w) = os w"
  by (auto simp add: close_quietly_def close_file_def nothing_pending_def split: option.split)

lemma closed_after_close_quietly:
  "case file_attr (self (close_quietly w)) of None \<Rightarrow> True | Some h \<Rightarrow> f_closed h"
  by (simp add: self_close_quietly split: option.split)

lemma close_quietly_task [simp]:
  "close_quietly (w\<lparr>self := (self w)\<lparr>current_task_id := t\<rparr>\<rparr>) =
     (close_quietly w)\<lparr>self := (self (close_quietly w))\<lparr>current_task_id := t\<rparr>\<rparr>"
  by (simp add: close_quietly_def close_file_def split: option.split)

lemma fst_open_file:
  "fst (open_file p w) = (if switch_refused p (os w) then Raised OSError else Returned ())"
  by (simp add: open_file_def mkdir_parent_def open_append_def switch_refused_def Let_def
      close_quietly_params)

lemma self_open_file:
  "self (snd (open_file p w)) =
     (if switch_refused p (os w) then self (close_quietly w)
      else (self w)\<lparr>file_attr := Some \<lparr>f_name = p, f_closed = False, f_pending = []\<rparr>,
                    current_file_path := Some p\<rparr>)"
  by (simp add: open_file_def mkdir_parent_def open_append_def switch_refused_def Let_def
      close_quietly_params)
     (simp add: close_quietly_def close_file_def split: option.split)

lemma files_open_file:
  "files (os (snd (open_file p w))) =
     (if switch_refused p (os w) then files (os (close_quietly w))
      else (files (os (close_quietly w)))(p \<mapsto>
             (case files (os (close_quietly w)) p of None \<Rightarrow> [] | Some c \<Rightarrow> c)))"
  by (simp add: open_file_def mkdir_parent_def open_append_def switch_refused_def Let_def
      close_quietly_params)

lemma stdout_open_file: "stdout (snd (open_file p w)) = stdout w"
  by (simp add: open_file_def mkdir_parent_def open_append_def Let_def close_quietly_params)

lemma params_open_file:
  "mkdir_refused (os (snd (open_file p w))) = mkdir_refused (os w)"
  "open_refused (os (snd (open_file p w))) = open_refused (os w)"
  "write_refused (os (snd (open_file p w))) = write_refused (os w)"
  "buffer_size (os (snd (open_file p w))) = buffer_size (os w)"
  "stdout_refused (os (snd (open_file p w))) = stdout_refused (os w)"
  "json_dumps (os (snd (open_file p w))) = json_dumps (os w)"
  by (simp_all add: open_file_def mkdir_parent_def open_append_def Let_def close_quietly_params)

lemma set_output_task_unfold:
  "set_output_task t w =
     (fst (open_file (task_output_path t) (w\<lparr>self := (self w)\<lparr>current_task_id := Some t\<rparr>\<rparr>)),
      if fst (open_file (task_output_path t) (w\<lparr>self := (self w)\<lparr>current_task_id := Some t\<rparr>\<rparr>))
           = Returned ()
      then print (LogSwitched t (task_output_path t))
             (snd (open_file (task_output_path t) (w\<lparr>self := (self w)\<lparr>current_task_id := Some t\<rparr>\<rparr>)))
      else snd (open_file (task_output_path t) (w\<lparr>self := (self w)\<lparr>current_task_id := Some t\<rparr>\<rparr>)))"
proof (cases "open_file (task_output_path t) (w\<lparr>self := (self w)\<lparr>current_task_id := Some t\<rparr>\<rparr>)")
  case (Pair r w2)
  then show ?thesis
    by (cases r) (simp_all add: set_output_task_def Let_def)
qed

lemma clear_output_task_unfold:
  "clear_output_task w =
     (fst (open_file default_output_path (w\<lparr>self := (self w)\<lparr>current_task_id := None\<rparr>\<rparr>)),
      if fst (open_file default_output_path (w\<lparr>self := (self w)\<lparr>current_task_id := None\<rparr>\<rparr>))
           = Returned ()
      then print (LogCleared (current_task_id (self w)))
             (snd (open_file default_output_path (w\<lparr>self := (self w)\<lparr>current_task_id := None\<rparr>\<rparr>)))
      else snd (open_file default_output_path (w\<lparr>self := (self w)\<lparr>current_task_id := None\<rparr>\<rparr>)))"
proof (cases "open_file default_output_path (w\<lparr>self := (self w)\<lparr>current_task_id := None\<rparr>\<rparr>)")
  case (Pair r w2)
  then show ?thesis
    by (cases r) (simp_all add: clear_output_task_def Let_def)
qed

lemma fst_set_output_task:
  "fst (set_output_task t w) =
     (if switch_refused (task_output_path t) (os w) then Raised OSError else Returned ())"
  by (simp add: set_output_task_unfold fst_open_file)

lemma self_set_output_task:
  "self (snd (set_output_task t w)) =
     (if switch_refused (task_output_path t) (os w)
      then (self (close_quietly w))\<lparr>current_task_id := Some t\<rparr>
      else \<lparr>current_task_id = Some t, current_file_path = Some (task_output_path t),
            file_attr = Some \<lparr>f_name = task_output_path t, f_closed = False, f_pending = []\<rparr>\<rparr>)"
  by (simp add: set_output_task_unfold fst_open_file self_open_file print_def)

lemma files_set_output_task:
  "files (os (snd (set_output_task t w))) =
     (if switch_refused (task_output_path t) (os w) then files (os (close_quietly w))
      else (files (os (close_quietly w)))(task_output_path t \<mapsto>
              (case files (os (close_quietly w)) (task_output_path t) of None \<Rightarrow> [] | Some c \<Rightarrow> c)))"
  by (simp add: set_output_task_unfold fst_open_file files_open_file print_def)

lemma params_set_output_task:
  "mkdir_refused (os (snd (set_output_task t w))) = mkdir_refused (os w)"
  "open_refused (os (snd (set_output_task t w))) = open_refused (os w)"
  "write_refused (os (snd (set_output_task t w))) = write_refused (os w)"
  "buffer_size (os (snd (set_output_task t w))) = buffer_size (os w)"
  "stdout_refused (os (snd (set_output_task t w))) = stdout_refused (os w)"
  "json_dumps (os (snd (set_output_task t w))) = json_dumps (os w)"
  by (simp_all add: set_output_task_unfold params_open_file print_def)

lemma stdout_set_output_task:
  "stdout (snd (set_output_task t w)) =
     (if switch_refused (task_output_path t) (os w) then stdout w
      else stdout w @ [LogSwitched t (task_output_path t)])"
  by (simp add: set_output_task_unfold fst_open_file stdout_open_file print_def)

lemma fst_clear_output_task:
  "fst (clear_output_task w) =
     (if switch_refused default_output_path (os w) then Raised OSError else Returned ())"
  by (simp add: clear_output_task_unfold fst_open_file)

lemma self_clear_output_task:
  "self (snd (clear_output_task w)) =
     (if switch_refused default_output_path (os w)
      then (self (close_quietly w))\<lparr>current_task_id := None\<rparr>
      else \<lparr>current_task_id = None, current_file_path = Some default_output_path,
            file_attr = Some \<lparr>f_name = default_output_path, f_closed = False, f_pending = []\<rparr>\<rparr>)"
  by (simp add: clear_output_task_unfold fst_open_file self_open_file print_def)

lemma files_clear_output_task:
  "files (os (snd (clear_output_task w))) =
     (if switch_refused default_output_path (os w) then files (os (close_quietly w))
      else (files (os (close_quietly w)))(default_output_path \<mapsto>
              (case files (os (close_quietly w)) default_output_path of None \<Rightarrow> [] | Some c \<Rightarrow> c)))"
  by (simp add: clear_output_task_unfold fst_open_file files_open_file print_def)

lemma path_parent_default: "path_parent default_output_path = ''/results''"
  by (simp add: default_output_path_def path_parent_def path_parts_def path_root_def render_path_def)

lemma init_unfold:
  "init e =
     (if mkdir_refused e (path_parent default_output_path) then
        (Raised OSError,
         \<lparr>os = e,
          self = \<lparr>current_task_id = None, current_file_path = None, file_attr = None\<rparr>,
          stdout = []\<rparr>)
      else if open_refused e default_output_path then
        (Raised OSError,
         \<lparr>os = e\<lparr>dirs := dirs e \<union> set (dir_chain (path_parent default_output_path))\<rparr>,
          self = \<lparr>current_task_id = None, current_file_path = None, file_attr = None\<rparr>,
          stdout = []\<rparr>)
      else
        (Returned (),
         \<lparr>os = e\<lparr>dirs := dirs e \<union> set (dir_chain (path_parent default_output_path)),
                 files := (files e)(default_output_path \<mapsto>
                            (case files e default_output_path of None \<Rightarrow> [] | Some c \<Rightarrow> c))\<rparr>,
          self = \<lparr>current_task_id = None, current_file_path = Some default_output_path,
                  file_attr = Some \<lparr>f_name = default_output_path, f_closed = False, f_pending = []\<rparr>\<rparr>,
          stdout = [LogStarted default_output_path]\<rparr>))"
  by (simp add: init_def mkdir_parent_def open_file_def open_append_def close_quietly_def
      print_def Let_def)

lemma init_plain_os: "init plain_os = (Returned (), idle_world)"
  using path_parent_default
  by (simp add: init_unfold idle_world_def plain_os_def dir_chain_def
      path_parts_def path_root_def render_path_def)
    (simp add: default_output_path_def)

lemma init_stuck:
  "init (plain_os\<lparr>mkdir_refused := (\<lambda>d. d \<noteq> ''/results'')\<rparr>) = (Returned (), stuck_world)"
  using path_parent_default
  by (simp add: init_unfold stuck_world_def idle_world_def plain_os_def dir_chain_def
      path_parts_def path_root_def render_path_def)
    (simp add: default_output_path_def)

lemma not_refused_idle [simp]: "\<not> switch_refused p (os idle_world)"
  by (simp add: switch_refused_def idle_world_def plain_os_def)

lemma stuck_refused: "switch_refused (task_output_path ''t1'') (os stuck_world)"
  by (simp add: switch_refused_def stuck_world_def task_output_path_def path_parent_def
      path_parts_def path_root_def render_path_def)

lemma sealed_refused: "switch_refused p (os sealed_world)"
  by (simp add: switch_refused_def sealed_world_def)

lemma do_POST_set_output:
  "do_POST \<lparr>http_path = ''/set_output'', http_body = Object tid\<rparr> w =
     (if truthy tid then
        (case fst (set_output_task (the tid) w) of
           Returned u \<Rightarrow>
             (\<lparr>status = 200, body = Some [(''status'', JStr ''ok''), (''task_id'', JStr (the tid))]\<rparr>,
              snd (set_output_task (the tid) w))
         | Raised e \<Rightarrow>
             (\<lparr>status = 500, body = None\<rparr>, print (LogApiError e) (snd (set_output_task (the tid) w))))
      else (\<lparr>status = 400, body = Some [(''error'', JStr ''task_id required'')]\<rparr>, w))"
proof (cases "set_output_task (the tid) w")
  case (Pair r w2)
  then show ?thesis
    by (cases r) (simp_all add: do_POST_def do_POST_try_def)
qed

lemma do_POST_clear_output:
  "do_POST \<lparr>http_path = ''/clear_output'', http_body = b\<rparr> w =
     (case b of
        Unreadable e \<Rightarrow> (\<lparr>status = 500, body = None\<rparr>, print (LogApiError e) w)
      | _ \<Rightarrow>
        (case fst (clear_output_task w) of
           Returned u \<Rightarrow> (\<lparr>status = 200, body = Some [(''status'', JStr ''ok'')]\<rparr>, snd (clear_output_task w))
         | Raised e \<Rightarrow> (\<lparr>status = 500, body = None\<rparr>, print (LogApiError e) (snd (clear_output_task w)))))"
proof (cases "clear_output_task w")
  case (Pair r w2)
  then show ?thesis
    by (cases r; cases b) (simp_all add: do_POST_def do_POST_try_def)
qed

lemma do_POST_other:
  "p \<noteq> ''/set_output'' \<Longrightarrow> p \<noteq> ''/clear_output'' \<Longrightarrow>
   do_POST \<lparr>http_path = p, http_body = b\<rparr> w =
     (case b of
        Unreadable e \<Rightarrow> (\<lparr>status = 500, body = None\<rparr>, print (LogApiError e) w)
      | _ \<Rightarrow> (\<lparr>status = 404, body = None\<rparr>, w))"
  by (cases b) (simp_all add: do_POST_def do_POST_try_def)

lemma do_GET_other:
  "p \<noteq> ''/current_task'' \<Longrightarrow> do_GET \<lparr>http_path = p, http_body = b\<rparr> w = (\<lparr>status = 404, body = None\<rparr>, w)"
  by (simp add: do_GET_def)


lemma write_flush_None: "write_flush None text e = (Raised AttributeError, None, e)"
  by (simp add: write_flush_def)

lemma write_flush_closed:
  "f_closed h \<Longrightarrow> write_flush (Some h) text e = (Raised ValueError, Some h, e)"
  by (simp add: write_flush_def)


lemma write_flush_accepted:
  "\<not> f_closed h \<Longrightarrow> \<not> write_refused e (f_name h) \<Longrightarrow>
   write_flush (Some h) text e =
     (Returned (),
      Some (h\<lparr>f_pending := []\<rparr>),
      e\<lparr>files := (files e)(f_name h \<mapsto>
             (case files e (f_name h) of None \<Rightarrow> [] | Some c \<Rightarrow> c) @ f_pending h @ text)\<rparr>)"
  by (simp add: write_flush_def)

lemma write_flush_raised:
  "fst (write_flush fh text e) = Raised x \<Longrightarrow> snd (snd (write_flush fh text e)) = e"
  by (cases fh) (simp_all add: write_flush_def split: if_splits)

lemma write_flush_handle:
  "map_option (\<lambda>h. (f_name h, f_closed h)) (fst (snd (write_flush fh text e))) =
   map_option (\<lambda>h. (f_name h, f_closed h)) fh"
  by (cases fh) (simp_all add: write_flush_def)


lemma files_write_flush:
  "files e p = Some c \<Longrightarrow> \<exists>d. files (snd (snd (write_flush fh text e))) p = Some (c @ d)"
  by (cases fh) (auto simp add: write_flush_def)

lemma response_try_unfold:
  "response_try rq w =
     (case json_dumps (os w) (build_record (current_task_id (self w)) rq) of
        Inl e \<Rightarrow> (Raised e, w)
      | Inr json_line \<Rightarrow>
          (case fst (write_flush (file_attr (self w)) (json_line @ [CHR 0x0A]) (os w)) of
             Raised e \<Rightarrow>
               (Raised e,
                w\<lparr>os := snd (snd (write_flush (file_attr (self w)) (json_line @ [CHR 0x0A]) (os w))),
                  self := (self w)\<lparr>file_attr :=
                    fst (snd (write_flush (file_attr (self w)) (json_line @ [CHR 0x0A]) (os w)))\<rparr>\<rparr>)
           | Returned u \<Rightarrow>
               (if truthy (current_task_id (self w))
                then print_line
                       (LogFlow (the (current_task_id (self w))) (JStr (req_method rq))
                          (JStr (pretty_url rq)))
                       (w\<lparr>os := snd (snd (write_flush (file_attr (self w)) (json_line @ [CHR 0x0A]) (os w))),
                          self := (self w)\<lparr>file_attr :=
                            fst (snd (write_flush (file_attr (self w)) (json_line @ [CHR 0x0A]) (os w)))\<rparr>\<rparr>)
                else (Returned (),
                      w\<lparr>os := snd (snd (write_flush (file_attr (self w)) (json_line @ [CHR 0x0A]) (os w))),
                        self := (self w)\<lparr>file_attr :=
                          fst (snd (write_flush (file_attr (self w)) (json_line @ [CHR 0x0A]) (os w)))\<rparr>\<rparr>))))"
proof (cases "json_dumps (os w) (build_record (current_task_id (self w)) rq)")
  case (Inl e)
  then show ?thesis by (simp add: response_try_def Let_def)
next
  case (Inr l)
  obtain r fh2 os2 where wf: "write_flush (file_attr (self w)) (l @ [CHR 0x0A]) (os w) = (r, fh2, os2)"
    by (cases "write_flush (file_attr (self w)) (l @ [CHR 0x0A]) (os w)") auto
  with Inr show ?thesis
    by (cases r) (simp_all add: response_try_def Let_def)
qed

lemma print_line_world:
  "self (snd (print_line l w)) = self w" "os (snd (print_line l w)) = os w"
  by (simp_all add: print_line_def print_def)

lemma response_unfold:
  "response rq w =
     (case fst (response_try rq w) of
        Raised e \<Rightarrow> print_line (LogError e) (snd (response_try rq w))
      | Returned u \<Rightarrow> (Returned (), snd (response_try rq w)))"
proof (cases "response_try rq w")
  case (Pair r w2)
  then show ?thesis by (cases r) (simp_all add: response_def)
qed

lemma self_response: "self (snd (response rq w)) = self (snd (response_try rq w))"
  by (cases "fst (response_try rq w)") (simp_all add: response_unfold print_line_world)

lemma os_response: "os (snd (response rq w)) = os (snd (response_try rq w))"
  by (cases "fst (response_try rq w)") (simp_all add: response_unfold print_line_world)

lemma os_response_try:
  "os (snd (response_try rq w)) =
     (case json_dumps (os w) (build_record (current_task_id (self w)) rq) of
        Inl e \<Rightarrow> os w
      | Inr json_line \<Rightarrow> snd (snd (write_flush (file_attr (self w)) (json_line @ [CHR 0x0A]) (os w))))"
  by (cases "json_dumps (os w) (build_record (current_task_id (self w)) rq)")
     (simp_all add: response_try_unfold print_line_world split: outcome.split)

lemma self_response_try:
  "self (snd (response_try rq w)) =
     (case json_dumps (os w) (build_record (current_task_id (self w)) rq) of
        Inl e \<Rightarrow> self w
      | Inr json_line \<Rightarrow>
          (self w)\<lparr>file_attr :=
             fst (snd (write_flush (file_attr (self w)) (json_line @ [CHR 0x0A]) (os w)))\<rparr>)"
  by (cases "json_dumps (os w) (build_record (current_task_id (self w)) rq)")
     (simp_all add: response_try_unfold print_line_world split: outcome.split)

lemma attributes_response:
  "current_task_id (self (snd (response rq w))) = current_task_id (self w)"
  "current_file_path (self (snd (response rq w))) = current_file_path (self w)"
  "map_option (\<lambda>h. (f_name h, f_closed h)) (file_attr (self (snd (response rq w)))) =
   map_option (\<lambda>h. (f_name h, f_closed h)) (file_attr (self w))"
  by (simp_all add: self_response self_response_try write_flush_handle split: sum.split)

lemma files_response:
  "files (os w) p = Some c \<Longrightarrow> \<exists>d. files (os (snd (response rq w))) p = Some (c @ d)"
  by (simp add: os_response os_response_try files_write_flush split: sum.split)

lemma response_without_stream:
  assumes "case file_attr (self w) of None \<Rightarrow> True | Some h \<Rightarrow> f_closed h"
  shows "os (snd (response rq w)) = os w"
proof (cases "file_attr (self w)")
  case None
  then show ?thesis
    by (simp add: os_response os_response_try write_flush_None split: sum.split)
next
  case (Some h)
  with assms have "f_closed h" by simp
  with Some show ?thesis
    by (simp add: os_response os_response_try write_flush_closed split: sum.split)
qed



lemma files_grow_open_file:
  "files (os w) p = Some c \<Longrightarrow> \<exists>d. files (os (snd (open_file q w))) p = Some (c @ d)"
  using files_grow_close_quietly [of w p c]
  by (auto simp add: files_open_file)

lemma files_grow_set_output_task:
  "files (os w) p = Some c \<Longrightarrow> \<exists>d. files (os (snd (set_output_task t w))) p = Some (c @ d)"
  using files_grow_close_quietly [of w p c]
  by (auto simp add: files_set_output_task)

lemma files_grow_clear_output_task:
  "files (os w) p = Some c \<Longrightarrow> \<exists>d. files (os (snd (clear_output_task w))) p = Some (c @ d)"
  using files_grow_close_quietly [of w p c]
  by (auto simp add: files_clear_output_task)

lemma files_kept_open_file:
  "nothing_pending (self w) \<Longrightarrow> files (os w) p = Some c \<Longrightarrow>
   files (os (snd (open_file q w))) p = Some c"
  by (auto simp add: files_open_file os_close_quietly_nothing_pending)

lemma files_kept_set_output_task:
  "nothing_pending (self w) \<Longrightarrow> files (os w) p = Some c \<Longrightarrow>
   files (os (snd (set_output_task t w))) p = Some c"
  by (auto simp add: files_set_output_task os_close_quietly_nothing_pending)

lemma files_kept_clear_output_task:
  "nothing_pending (self w) \<Longrightarrow> files (os w) p = Some c \<Longrightarrow>
   files (os (snd (clear_output_task w))) p = Some c"
  by (auto simp add: files_clear_output_task os_close_quietly_nothing_pending)

lemma files_kept_init:
  "files e p = Some c \<Longrightarrow> files (os (snd (init e))) p = Some c"
  by (auto simp add: init_unfold)

lemma nothing_pending_after_set_output_task:
  "nothing_pending (self (snd (set_output_task t w)))"
  by (simp add: self_set_output_task self_close_quietly nothing_pending_def split: option.split)

lemma line_appended_after_switch:
  "files (os (snd (response example_request (snd (set_output_task ''t1'' old_world)))))
     ''/results/t1/flows.jsonl'' =
     Some (''old'' @ [CHR 0x0A] @ ''{ts;method;scheme;host;port;path;url;task_id;}'' @ [CHR 0x0A])"
proof -
  let ?w = "snd (set_output_task ''t1'' old_world)"
  have r: "\<not> switch_refused (task_output_path ''t1'') (os old_world)"
    by (simp add: switch_refused_def old_world_def idle_world_def plain_os_def)
  have s: "self ?w =
      \<lparr>current_task_id = Some ''t1'', current_file_path = Some ''/results/t1/flows.jsonl'',
       file_attr = Some \<lparr>f_name = ''/results/t1/flows.jsonl'', f_closed = False, f_pending = []\<rparr>\<rparr>"
    using r by (simp add: self_set_output_task task_output_path_def)
  have n: "nothing_pending (self old_world)"
    by (simp add: old_world_def idle_world_def nothing_pending_def)
  have f: "files (os ?w) ''/results/t1/flows.jsonl'' = Some (''old'' @ [CHR 0x0A])"
    using n by (rule files_kept_set_output_task) (simp add: old_world_def)
  have j: "json_dumps (os ?w) = example_dumps" "write_refused (os ?w) = (\<lambda>p. False)"
    by (simp_all add: params_set_output_task old_world_def idle_world_def plain_os_def)
  show ?thesis
    by (simp add: os_response os_response_try write_flush_def s f j build_record_def truthy_def
        example_dumps_def example_request_def)
qed

lemma flushed_by_switch:
  "files (os (snd (set_output_task ''t1'' pending_world))) ''/results/flows.jsonl'' =
     Some (''{ts;method;scheme;host;port;path;url;}'' @ [CHR 0x0A])"
  by (simp add: files_set_output_task files_close_quietly task_output_path_def switch_refused_def
      pending_world_def idle_world_def plain_os_def)

subsection \<open>The snapshot after a switch\<close>

text \<open>
  Claim C3. After \<^verbatim>\<open>set_output_task(t)\<close> has returned, \<^verbatim>\<open>get_current_task()\<close>
  answers the task id \<open>t\<close> and the output path \<^verbatim>\<open>/results/\<close>\<open>t\<close>\<^verbatim>\<open>/flows.jsonl\<close>.
  This holds for every string \<open>t\<close>, the non-empty ones of the claim among them.
\<close>

theorem snapshot_after_set_output_task:
  "fst (set_output_task t w) = Returned () \<Longrightarrow>
   get_current_task (snd (set_output_task t w)) =
     (Some t, Some (''/results/'' @ t @ ''/flows.jsonl''))"
  by (simp add: fst_set_output_task self_set_output_task get_current_task_def
      task_output_path_def split: if_splits)

theorem snapshot_after_set_output_task_witness:
  "fst (set_output_task ''job-42'' idle_world) = Returned () \<and>
   get_current_task (snd (set_output_task ''job-42'' idle_world)) =
     (Some ''job-42'', Some ''/results/job-42/flows.jsonl'')"
proof -
  have h: "fst (set_output_task ''job-42'' idle_world) = Returned ()"
    by (simp add: fst_set_output_task)
  from snapshot_after_set_output_task [OF h] h show ?thesis by simp
qed

text \<open>
  Claim C4. Whether \<^verbatim>\<open>clear_output_task()\<close> returns depends on the file system alone
  (the directory \<^verbatim>\<open>/results\<close> and the default file must be accepted), not on whether
  a task is active; and after it has returned, \<^verbatim>\<open>get_current_task()\<close> answers no task
  and the default path \<^verbatim>\<open>/results/flows.jsonl\<close>.
\<close>

theorem snapshot_after_clear_output_task:
  "(fst (clear_output_task w) = Returned () \<longleftrightarrow>
      \<not> mkdir_refused (os w) ''/results'' \<and> \<not> open_refused (os w) ''/results/flows.jsonl'') \<and>
   (fst (clear_output_task w) = Returned () \<longrightarrow>
      get_current_task (snd (clear_output_task w)) = (None, Some ''/results/flows.jsonl''))"
  using path_parent_default
  by (simp add: fst_clear_output_task self_clear_output_task get_current_task_def
      switch_refused_def default_output_path_def)

theorem snapshot_after_clear_output_task_witness:
  "current_task_id (self idle_world) = None \<and>
   fst (clear_output_task idle_world) = Returned () \<and>
   get_current_task (snd (clear_output_task idle_world)) = (None, Some ''/results/flows.jsonl'') \<and>
   get_current_task (snd (clear_output_task idle_world)) = get_current_task idle_world"
proof -
  have h: "fst (clear_output_task idle_world) = Returned ()"
    by (simp add: fst_clear_output_task)
  from snapshot_after_clear_output_task [of idle_world] h
  have "get_current_task (snd (clear_output_task idle_world)) = (None, Some ''/results/flows.jsonl'')"
    by blast
  with h show ?thesis by (simp add: idle_world_def get_current_task_def)
qed

subsection \<open>A switch that fails\<close>

text \<open>
  Claim C1, as stated, fails. The writer has just started on a file system where no
  directory can be made below \<^verbatim>\<open>/results\<close>; \<^verbatim>\<open>set_output_task("t1")\<close> raises,
  and it leaves the task id set to \<^verbatim>\<open>t1\<close> and the previous stream closed: the state
  is not the one before the call, and the previous stream is not open.
\<close>

theorem failed_switch_closes_previous_stream:
  "self stuck_world =
     \<lparr>current_task_id = None, current_file_path = Some ''/results/flows.jsonl'',
      file_attr = Some \<lparr>f_name = ''/results/flows.jsonl'', f_closed = False, f_pending = []\<rparr>\<rparr> \<and>
   fst (set_output_task ''t1'' stuck_world) = Raised OSError \<and>
   self (snd (set_output_task ''t1'' stuck_world)) =
     \<lparr>current_task_id = Some ''t1'', current_file_path = Some ''/results/flows.jsonl'',
      file_attr = Some \<lparr>f_name = ''/results/flows.jsonl'', f_closed = True, f_pending = []\<rparr>\<rparr>"
  using stuck_refused
  by (simp add: fst_set_output_task self_set_output_task close_quietly_def close_file_def
      stuck_world_def idle_world_def)

text \<open>
  Claim C1, amended. When the operating system refuses the directory or the file,
  \<^verbatim>\<open>set_output_task\<close> (and likewise \<^verbatim>\<open>clear_output_task\<close>) raises to its caller,
  and the control API answers HTTP 500; nothing is raised into the data plane. The recorded
  output path stays the previous one. The attempt is not atomic: the task id has already
  been overwritten (by the new id, or by none), the previous stream has already been
  closed, and a record observed afterwards is dropped: it changes no file. The files are
  those before the call when the previous stream had nothing left in its buffer.
\<close>

theorem failed_switch_is_reported_not_atomic:
  "(switch_refused (task_output_path t) (os w) \<longrightarrow>
      fst (set_output_task t w) = Raised OSError \<and>
      current_task_id (self (snd (set_output_task t w))) = Some t \<and>
      current_file_path (self (snd (set_output_task t w))) = current_file_path (self w) \<and>
      file_attr (self (snd (set_output_task t w))) =
        map_option (\<lambda>h. h\<lparr>f_closed := True, f_pending := []\<rparr>) (file_attr (self w)) \<and>
      files (os (snd (response rq (snd (set_output_task t w))))) =
        files (os (snd (set_output_task t w))) \<and>
      (nothing_pending (self w) \<longrightarrow>
         files (os (snd (response rq (snd (set_output_task t w))))) = files (os w)) \<and>
      (t \<noteq> [] \<longrightarrow>
         status (fst (do_POST \<lparr>http_path = ''/set_output'', http_body = Object (Some t)\<rparr> w)) = 500)) \<and>
   (switch_refused default_output_path (os w) \<longrightarrow>
      fst (clear_output_task w) = Raised OSError \<and>
      current_task_id (self (snd (clear_output_task w))) = None \<and>
      current_file_path (self (snd (clear_output_task w))) = current_file_path (self w) \<and>
      file_attr (self (snd (clear_output_task w))) =
        map_option (\<lambda>h. h\<lparr>f_closed := True, f_pending := []\<rparr>) (file_attr (self w)) \<and>
      files (os (snd (response rq (snd (clear_output_task w))))) =
        files (os (snd (clear_output_task w))) \<and>
      (nothing_pending (self w) \<longrightarrow>
         files (os (snd (response rq (snd (clear_output_task w))))) = files (os w)) \<and>
      status (fst (do_POST \<lparr>http_path = ''/clear_output'', http_body = Object None\<rparr> w)) = 500)"
proof -
  have a: "files (os (snd (response rq (snd (set_output_task t w))))) =
             files (os (snd (set_output_task t w)))"
    if r: "switch_refused (task_output_path t) (os w)"
  proof -
    from r have "file_attr (self (snd (set_output_task t w))) = file_attr (self (close_quietly w))"
      by (simp add: self_set_output_task)
    with closed_after_close_quietly [of w]
    have "case file_attr (self (snd (set_output_task t w))) of None \<Rightarrow> True | Some h \<Rightarrow> f_closed h"
      by simp
    then show ?thesis by (simp add: response_without_stream)
  qed
  have b: "files (os (snd (response rq (snd (clear_output_task w))))) =
             files (os (snd (clear_output_task w)))"
    if r: "switch_refused default_output_path (os w)"
  proof -
    from r have "file_attr (self (snd (clear_output_task w))) = file_attr (self (close_quietly w))"
      by (simp add: self_clear_output_task)
    with closed_after_close_quietly [of w]
    have "case file_attr (self (snd (clear_output_task w))) of None \<Rightarrow> True | Some h \<Rightarrow> f_closed h"
      by simp
    then show ?thesis by (simp add: response_without_stream)
  qed
  from a b show ?thesis
    by (simp add: fst_set_output_task self_set_output_task fst_clear_output_task
        self_clear_output_task self_close_quietly files_set_output_task files_clear_output_task
        os_close_quietly_nothing_pending do_POST_set_output do_POST_clear_output truthy_def)
qed

theorem failed_switch_is_reported_not_atomic_witness:
  "switch_refused (task_output_path ''t1'') (os sealed_world) \<and>
   nothing_pending (self sealed_world) \<and>
   fst (set_output_task ''t1'' sealed_world) = Raised OSError \<and>
   current_task_id (self (snd (set_output_task ''t1'' sealed_world))) = Some ''t1'' \<and>
   current_file_path (self (snd (set_output_task ''t1'' sealed_world))) = Some ''/results/flows.jsonl'' \<and>
   file_attr (self (snd (set_output_task ''t1'' sealed_world))) =
     Some \<lparr>f_name = ''/results/flows.jsonl'', f_closed = True, f_pending = []\<rparr> \<and>
   files (os (snd (response example_request (snd (set_output_task ''t1'' sealed_world))))) =
     files (os sealed_world) \<and>
   status (fst (do_POST \<lparr>http_path = ''/set_output'', http_body = Object (Some ''t1'')\<rparr> sealed_world)) = 500 \<and>
   switch_refused default_output_path (os sealed_world) \<and>
   fst (clear_output_task sealed_world) = Raised OSError \<and>
   file_attr (self (snd (clear_output_task sealed_world))) =
     Some \<lparr>f_name = ''/results/flows.jsonl'', f_closed = True, f_pending = []\<rparr> \<and>
   status (fst (do_POST \<lparr>http_path = ''/clear_output'', http_body = Object None\<rparr> sealed_world)) = 500"
proof -
  have s: "self sealed_world =
     \<lparr>current_task_id = None, current_file_path = Some ''/results/flows.jsonl'',
      file_attr = Some \<lparr>f_name = ''/results/flows.jsonl'', f_closed = False, f_pending = []\<rparr>\<rparr>"
    by (simp add: sealed_world_def idle_world_def)
  then have n: "nothing_pending (self sealed_world)"
    by (simp add: nothing_pending_def)
  have t: "switch_refused (task_output_path ''t1'') (os sealed_world)"
    and d: "switch_refused default_output_path (os sealed_world)"
    by (rule sealed_refused)+
  note inst = failed_switch_is_reported_not_atomic [of "''t1''" sealed_world example_request]
  from inst t n
  have f: "files (os (snd (response example_request (snd (set_output_task ''t1'' sealed_world))))) =
             files (os sealed_world)"
    by blast
  from inst t
  have g: "fst (set_output_task ''t1'' sealed_world) = Raised OSError"
    "current_task_id (self (snd (set_output_task ''t1'' sealed_world))) = Some ''t1''"
    "current_file_path (self (snd (set_output_task ''t1'' sealed_world))) =
       current_file_path (self sealed_world)"
    "file_attr (self (snd (set_output_task ''t1'' sealed_world))) =
       map_option (\<lambda>h. h\<lparr>f_closed := True, f_pending := []\<rparr>) (file_attr (self sealed_world))"
    "status (fst (do_POST \<lparr>http_path = ''/set_output'', http_body = Object (Some ''t1'')\<rparr>
                    sealed_world)) = 500"
    by simp_all
  from inst d
  have c: "fst (clear_output_task sealed_world) = Raised OSError"
    "file_attr (self (snd (clear_output_task sealed_world))) =
       map_option (\<lambda>h. h\<lparr>f_closed := True, f_pending := []\<rparr>) (file_attr (self sealed_world))"
    "status (fst (do_POST \<lparr>http_path = ''/clear_output'', http_body = Object None\<rparr>
                    sealed_world)) = 500"
    by simp_all
  from t d n f g c show ?thesis by (simp add: s)
qed

subsection \<open>The invariant of the router state\<close>

text \<open>
  Claim C2, as stated, fails. In the same start state the invariant holds; after the
  \<^verbatim>\<open>set_output_task("t1")\<close> that raises it does not: the task id is \<^verbatim>\<open>t1\<close>, the
  stream and the recorded path are still those of the default file.
\<close>

theorem router_invariant_broken_by_failed_switch:
  "router_invariant (self stuck_world) \<and>
   \<not> router_invariant (self (snd (set_output_task ''t1'' stuck_world)))"
  using stuck_refused
  by (simp add: self_set_output_task close_quietly_def close_file_def router_invariant_def
      path_implied_by_def stuck_world_def idle_world_def)

text \<open>
  Claim C2, amended. The invariant holds after \<^verbatim>\<open>__init__\<close>, after
  \<^verbatim>\<open>set_output_task\<close> and after \<^verbatim>\<open>clear_output_task\<close> whenever the call has
  returned without raising, and the data-plane callback \<^verbatim>\<open>response\<close> keeps it in every
  case.
\<close>

theorem router_invariant_after_completed_operations:
  "(fst (init e) = Returned () \<longrightarrow> router_invariant (self (snd (init e)))) \<and>
   (fst (set_output_task t w) = Returned () \<longrightarrow> router_invariant (self (snd (set_output_task t w)))) \<and>
   (fst (clear_output_task w) = Returned () \<longrightarrow> router_invariant (self (snd (clear_output_task w)))) \<and>
   (router_invariant (self w) \<longrightarrow> router_invariant (self (snd (response rq w))))"
proof -
  have "router_invariant (self (snd (response rq w)))" if i: "router_invariant (self w)"
  proof -
    from i obtain h where h: "file_attr (self w) = Some h"
      by (cases "file_attr (self w)") (simp_all add: router_invariant_def)
    with attributes_response(3) [of rq w]
    obtain h2 where h2: "file_attr (self (snd (response rq w))) = Some h2" "f_name h2 = f_name h"
      by (cases "file_attr (self (snd (response rq w)))") auto
    with i h show ?thesis
      by (simp add: router_invariant_def attributes_response)
  qed
  then show ?thesis
    by (simp add: init_unfold fst_set_output_task self_set_output_task fst_clear_output_task
        self_clear_output_task router_invariant_def path_implied_by_def
        task_output_path_def default_output_path_def)
qed

theorem router_invariant_after_completed_operations_witness:
  "fst (init plain_os) = Returned () \<and> router_invariant (self (snd (init plain_os))) \<and>
   fst (set_output_task ''t1'' idle_world) = Returned () \<and>
   router_invariant (self (snd (set_output_task ''t1'' idle_world))) \<and>
   fst (clear_output_task idle_world) = Returned () \<and>
   router_invariant (self (snd (clear_output_task idle_world))) \<and>
   router_invariant (self idle_world) \<and>
   router_invariant (self (snd (response example_request idle_world)))"
proof -
  have a: "fst (init plain_os) = Returned ()"
    by (simp add: init_plain_os)
  have b: "fst (set_output_task ''t1'' idle_world) = Returned ()"
    by (simp add: fst_set_output_task)
  have c: "fst (clear_output_task idle_world) = Returned ()"
    by (simp add: fst_clear_output_task)
  have d: "router_invariant (self idle_world)"
    by (simp add: router_invariant_def path_implied_by_def idle_world_def)
  from router_invariant_after_completed_operations [of plain_os "''t1''" idle_world example_request]
       a b c d
  show ?thesis by simp
qed

subsection \<open>The record of a flow\<close>

text \<open>
  Claim C5. A task is active when a task id is set and is not the empty string. The
  dictionary that \<^verbatim>\<open>response\<close> serialises has the keys \<^verbatim>\<open>ts\<close>, \<^verbatim>\<open>method\<close>,
  \<^verbatim>\<open>scheme\<close>, \<^verbatim>\<open>host\<close>, \<^verbatim>\<open>port\<close>, \<^verbatim>\<open>path\<close>, \<^verbatim>\<open>url\<close>, in this order,
  followed by \<^verbatim>\<open>task_id\<close> exactly when a task is active. With no active task the key
  is absent, not \<^verbatim>\<open>null\<close>; with one, its value is the task id. When the stream takes
  the write, the current file ends with the \<^verbatim>\<open>json.dumps\<close> text of this dictionary
  and a newline.
\<close>

theorem flow_record_fields:
  "map fst (build_record ct rq) =
     [''ts'', ''method'', ''scheme'', ''host'', ''port'', ''path'', ''url'']
     @ (if (\<exists>t. ct = Some t \<and> t \<noteq> []) then [''task_id''] else []) \<and>
   map_of (build_record ct rq) ''task_id'' =
     (case ct of None \<Rightarrow> None | Some t \<Rightarrow> if t = [] then None else Some (JStr t)) \<and>
   (json_dumps (os w) (build_record (current_task_id (self w)) rq) = Inr line \<longrightarrow>
    file_attr (self w) = Some h \<longrightarrow> \<not> f_closed h \<longrightarrow> \<not> write_refused (os w) (f_name h) \<longrightarrow>
      files (os (snd (response rq w))) (f_name h) =
        Some ((case files (os w) (f_name h) of None \<Rightarrow> [] | Some c \<Rightarrow> c)
              @ f_pending h @ line @ [CHR 0x0A]))"
proof -
  have a: "map fst (build_record ct rq) =
     [''ts'', ''method'', ''scheme'', ''host'', ''port'', ''path'', ''url'']
     @ (if (\<exists>t. ct = Some t \<and> t \<noteq> []) then [''task_id''] else [])"
    by (cases ct) (simp_all add: build_record_def truthy_def)
  have b: "map_of (build_record ct rq) ''task_id'' =
     (case ct of None \<Rightarrow> None | Some t \<Rightarrow> if t = [] then None else Some (JStr t))"
    by (cases ct) (simp_all add: build_record_def truthy_def)
  have c: "files (os (snd (response rq w))) (f_name h) =
        Some ((case files (os w) (f_name h) of None \<Rightarrow> [] | Some c \<Rightarrow> c)
              @ f_pending h @ line @ [CHR 0x0A])"
    if "json_dumps (os w) (build_record (current_task_id (self w)) rq) = Inr line"
      and "file_attr (self w) = Some h" and "\<not> f_closed h" and "\<not> write_refused (os w) (f_name h)"
    using that by (simp add: os_response os_response_try write_flush_accepted)
  from a b c show ?thesis by blast
qed

theorem flow_record_fields_witness:
  "map fst (build_record (Some ''t1'') example_request) =
     [''ts'', ''method'', ''scheme'', ''host'', ''port'', ''path'', ''url'', ''task_id''] \<and>
   map_of (build_record (Some ''t1'') example_request) ''task_id'' = Some (JStr ''t1'') \<and>
   map fst (build_record None example_request) =
     [''ts'', ''method'', ''scheme'', ''host'', ''port'', ''path'', ''url''] \<and>
   map_of (build_record None example_request) ''task_id'' = None \<and>
   current_task_id (self (snd (set_output_task ''t1'' idle_world))) = Some ''t1'' \<and>
   files (os (snd (response example_request (snd (set_output_task ''t1'' idle_world)))))
     ''/results/t1/flows.jsonl'' =
     Some (''{ts;method;scheme;host;port;path;url;task_id;}'' @ [CHR 0x0A]) \<and>
   files (os (snd (response example_request idle_world))) ''/results/flows.jsonl'' =
     Some (''{ts;method;scheme;host;port;path;url;}'' @ [CHR 0x0A])"
proof -
  let ?w = "snd (set_output_task ''t1'' idle_world)"
  let ?h = "\<lparr>f_name = ''/results/t1/flows.jsonl'', f_closed = False, f_pending = []\<rparr>"
  let ?d = "\<lparr>f_name = ''/results/flows.jsonl'', f_closed = False, f_pending = []\<rparr>"
  have s: "self ?w =
      \<lparr>current_task_id = Some ''t1'', current_file_path = Some ''/results/t1/flows.jsonl'',
       file_attr = Some ?h\<rparr>"
    by (simp add: self_set_output_task task_output_path_def)
  have e: "json_dumps (os ?w) = example_dumps" "write_refused (os ?w) = (\<lambda>p. False)"
    by (simp_all add: params_set_output_task idle_world_def plain_os_def)
  have f: "files (os ?w) ''/results/t1/flows.jsonl'' = Some []"
    by (simp add: files_set_output_task task_output_path_def close_quietly_def close_file_def
        switch_refused_def idle_world_def plain_os_def)
  have l: "json_dumps (os ?w) (build_record (current_task_id (self ?w)) example_request) =
             Inr ''{ts;method;scheme;host;port;path;url;task_id;}''"
    by (simp add: e s build_record_def truthy_def example_dumps_def)
  have l0: "json_dumps (os idle_world) (build_record (current_task_id (self idle_world)) example_request) =
             Inr ''{ts;method;scheme;host;port;path;url;}''"
    by (simp add: idle_world_def plain_os_def build_record_def truthy_def example_dumps_def)
  have h0: "file_attr (self idle_world) = Some ?d" "\<not> write_refused (os idle_world) (f_name ?d)"
    "files (os idle_world) ''/results/flows.jsonl'' = Some []"
    by (simp_all add: idle_world_def plain_os_def)
  from flow_record_fields [of "Some ''t1''" example_request ?w
         "''{ts;method;scheme;host;port;path;url;task_id;}''" ?h] l s e f
  have one: "map fst (build_record (Some ''t1'') example_request) =
       [''ts'', ''method'', ''scheme'', ''host'', ''port'', ''path'', ''url'', ''task_id'']"
    "map_of (build_record (Some ''t1'') example_request) ''task_id'' = Some (JStr ''t1'')"
    "files (os (snd (response example_request ?w))) ''/results/t1/flows.jsonl'' =
       Some (''{ts;method;scheme;host;port;path;url;task_id;}'' @ [CHR 0x0A])"
    by simp_all
  from flow_record_fields [of None example_request idle_world
         "''{ts;method;scheme;host;port;path;url;}''" ?d] l0 h0
  have two: "map fst (build_record None example_request) =
       [''ts'', ''method'', ''scheme'', ''host'', ''port'', ''path'', ''url'']"
    "map_of (build_record None example_request) ''task_id'' = None"
    "files (os (snd (response example_request idle_world))) ''/results/flows.jsonl'' =
       Some (''{ts;method;scheme;host;port;path;url;}'' @ [CHR 0x0A])"
    by simp_all
  from one two s show ?thesis by simp
qed

subsection \<open>Validation in \<^verbatim>\<open>POST /set_output\<close>\<close>

text \<open>
  Claim C6. \<^verbatim>\<open>POST /set_output\<close> with a JSON object that has no \<^verbatim>\<open>task_id\<close> (the
  body \<^verbatim>\<open>{}\<close>, or no body) or an empty one is answered with HTTP 400 and the body
  \<^verbatim>\<open>{"error": "task_id required"}\<close>, and the world, so the snapshot too, is left as it
  was. With a non-empty \<^verbatim>\<open>task_id\<close> the handler calls \<^verbatim>\<open>set_output_task\<close>; when
  that returns, the answer is HTTP 200 with \<^verbatim>\<open>{"status": "ok", "task_id": ...}\<close> and
  the world is the one the switch left.
\<close>

theorem set_output_validates_task_id:
  "(\<not> truthy tid \<longrightarrow>
      do_POST \<lparr>http_path = ''/set_output'', http_body = Object tid\<rparr> w =
        (\<lparr>status = 400, body = Some [(''error'', JStr ''task_id required'')]\<rparr>, w)) \<and>
   (t \<noteq> [] \<longrightarrow> fst (set_output_task t w) = Returned () \<longrightarrow>
      do_POST \<lparr>http_path = ''/set_output'', http_body = Object (Some t)\<rparr> w =
        (\<lparr>status = 200, body = Some [(''status'', JStr ''ok''), (''task_id'', JStr t)]\<rparr>,
         snd (set_output_task t w)))"
  by (simp add: do_POST_set_output truthy_def)

theorem set_output_validates_task_id_witness:
  "do_POST \<lparr>http_path = ''/set_output'', http_body = Object None\<rparr> idle_world =
     (\<lparr>status = 400, body = Some [(''error'', JStr ''task_id required'')]\<rparr>, idle_world) \<and>
   do_POST \<lparr>http_path = ''/set_output'', http_body = Object (Some [])\<rparr> idle_world =
     (\<lparr>status = 400, body = Some [(''error'', JStr ''task_id required'')]\<rparr>, idle_world) \<and>
   fst (set_output_task ''t1'' idle_world) = Returned () \<and>
   do_POST \<lparr>http_path = ''/set_output'', http_body = Object (Some ''t1'')\<rparr> idle_world =
     (\<lparr>status = 200, body = Some [(''status'', JStr ''ok''), (''task_id'', JStr ''t1'')]\<rparr>,
      snd (set_output_task ''t1'' idle_world))"
proof -
  have h: "fst (set_output_task ''t1'' idle_world) = Returned ()"
    by (simp add: fst_set_output_task)
  have n1: "\<not> truthy None" and n2: "\<not> truthy (Some [])"
    by (simp_all add: truthy_def)
  from set_output_validates_task_id [of None idle_world] set_output_validates_task_id [of "Some []" idle_world]
       set_output_validates_task_id [of None idle_world "''t1''"] h n1 n2
  show ?thesis by simp
qed

subsection \<open>Errors in the data plane\<close>




subsection \<open>Requests outside the API\<close>

text \<open>
  Claim C8, as stated, fails. \<^verbatim>\<open>do_POST\<close> reads and parses the body before it looks
  at the path: a \<^verbatim>\<open>POST\<close> to an unknown path with a body that is not JSON is answered
  with HTTP 500, not 404.
\<close>

theorem unrouted_post_with_unreadable_body:
  "status (fst (do_POST \<lparr>http_path = ''/nope'', http_body = Unreadable ValueError\<rparr> idle_world)) = 500"
  by (simp add: do_POST_other)

text \<open>
  Claim C8, amended. A \<^verbatim>\<open>GET\<close> to a path other than \<^verbatim>\<open>/current_task\<close> is answered
  with HTTP 404. A \<^verbatim>\<open>POST\<close> to a path other than \<^verbatim>\<open>/set_output\<close> and
  \<^verbatim>\<open>/clear_output\<close> is answered with HTTP 404 when its body can be read (an empty body,
  or any JSON text), and with HTTP 500 and a line on the log when it cannot. In each case
  the writer and the file system are left as they were.
\<close>

theorem unrouted_requests:
  "(p \<noteq> ''/current_task'' \<longrightarrow>
      do_GET \<lparr>http_path = p, http_body = b\<rparr> w = (\<lparr>status = 404, body = None\<rparr>, w)) \<and>
   (p \<noteq> ''/set_output'' \<longrightarrow> p \<noteq> ''/clear_output'' \<longrightarrow>
      do_POST \<lparr>http_path = p, http_body = b\<rparr> w =
        (case b of
           Unreadable e \<Rightarrow> (\<lparr>status = 500, body = None\<rparr>, w\<lparr>stdout := stdout w @ [LogApiError e]\<rparr>)
         | _ \<Rightarrow> (\<lparr>status = 404, body = None\<rparr>, w)))"
  by (cases b) (simp_all add: do_GET_other do_POST_other print_def)

theorem unrouted_requests_witness:
  "do_GET \<lparr>http_path = ''/set_output'', http_body = Object None\<rparr> idle_world =
     (\<lparr>status = 404, body = None\<rparr>, idle_world) \<and>
   do_POST \<lparr>http_path = ''/current_task'', http_body = Object None\<rparr> idle_world =
     (\<lparr>status = 404, body = None\<rparr>, idle_world) \<and>
   do_POST \<lparr>http_path = ''/nope'', http_body = NonObject\<rparr> idle_world =
     (\<lparr>status = 404, body = None\<rparr>, idle_world) \<and>
   do_POST \<lparr>http_path = ''/nope'', http_body = Unreadable ValueError\<rparr> idle_world =
     (\<lparr>status = 500, body = None\<rparr>,
      idle_world\<lparr>stdout := [LogStarted ''/results/flows.jsonl'', LogApiError ValueError]\<rparr>)"
  using unrouted_requests [of "''/set_output''" "Object None" idle_world]
        unrouted_requests [of "''/current_task''" "Object None" idle_world]
        unrouted_requests [of "''/nope''" NonObject idle_world]
        unrouted_requests [of "''/nope''" "Unreadable ValueError" idle_world]
  by (simp add: idle_world_def)

subsection \<open>Files are appended to\<close>

text \<open>
  Claim C9. A file that exists is never truncated and only grows. Through every open the
  writer performs (\<^verbatim>\<open>_open_file\<close> on any path, \<^verbatim>\<open>set_output_task\<close>, also when
  called twice with the same id, \<^verbatim>\<open>clear_output_task\<close>), whether it returns or raises,
  a file keeps its content as a prefix; what may be added is the text left in the buffer
  of the stream that is closed, so the content is kept as it is when that buffer is
  empty. \<^verbatim>\<open>__init__\<close> keeps every file as it is. The data-plane callback only adds
  text at the end of a file.
\<close>

theorem files_only_grow:
  "files (os w) p = Some c \<Longrightarrow>
     (\<exists>d. files (os (snd (open_file q w))) p = Some (c @ d)) \<and>
     (\<exists>d. files (os (snd (set_output_task t w))) p = Some (c @ d) \<and>
          files (os (snd (set_output_task t (snd (set_output_task t w))))) p = Some (c @ d)) \<and>
     (\<exists>d. files (os (snd (clear_output_task w))) p = Some (c @ d)) \<and>
     files (os (snd (init (os w)))) p = Some c \<and>
     (\<exists>d. files (os (snd (response rq w))) p = Some (c @ d)) \<and>
     (nothing_pending (self w) \<longrightarrow>
        files (os (snd (open_file q w))) p = Some c \<and>
        files (os (snd (set_output_task t w))) p = Some c \<and>
        files (os (snd (set_output_task t (snd (set_output_task t w))))) p = Some c \<and>
        files (os (snd (clear_output_task w))) p = Some c)"
proof -
  assume f: "files (os w) p = Some c"
  from files_grow_set_output_task [OF f, of t]
  obtain d where d: "files (os (snd (set_output_task t w))) p = Some (c @ d)" ..
  have twice: "files (os (snd (set_output_task t (snd (set_output_task t w))))) p = Some (c @ d)"
    using nothing_pending_after_set_output_task d by (rule files_kept_set_output_task)
  have kept: "files (os (snd (set_output_task t (snd (set_output_task t w))))) p = Some c"
    if n: "nothing_pending (self w)"
    using nothing_pending_after_set_output_task files_kept_set_output_task [OF n f]
    by (rule files_kept_set_output_task)
  from f d twice kept show ?thesis
    by (auto simp add: files_grow_open_file files_grow_clear_output_task files_kept_init
        files_response files_kept_open_file files_kept_set_output_task
        files_kept_clear_output_task)
qed

theorem files_only_grow_witness:
  "files (os old_world) ''/results/t1/flows.jsonl'' = Some (''old'' @ [CHR 0x0A]) \<and>
   nothing_pending (self old_world) \<and>
   files (os (snd (set_output_task ''t1'' old_world))) ''/results/t1/flows.jsonl'' =
     Some (''old'' @ [CHR 0x0A]) \<and>
   files (os (snd (set_output_task ''t1'' (snd (set_output_task ''t1'' old_world)))))
     ''/results/t1/flows.jsonl'' = Some (''old'' @ [CHR 0x0A]) \<and>
   files (os (snd (clear_output_task old_world))) ''/results/t1/flows.jsonl'' =
     Some (''old'' @ [CHR 0x0A]) \<and>
   (\<exists>d. files (os (snd (response example_request old_world))) ''/results/t1/flows.jsonl'' =
     Some (''old'' @ [CHR 0x0A] @ d)) \<and>
   files (os (snd (response example_request (snd (set_output_task ''t1'' old_world)))))
     ''/results/t1/flows.jsonl'' =
     Some (''old'' @ [CHR 0x0A] @ ''{ts;method;scheme;host;port;path;url;task_id;}'' @ [CHR 0x0A]) \<and>
   files (os pending_world) ''/results/flows.jsonl'' = Some [] \<and>
   files (os (snd (set_output_task ''t1'' pending_world))) ''/results/flows.jsonl'' =
     Some (''{ts;method;scheme;host;port;path;url;}'' @ [CHR 0x0A])"
proof -
  have h: "files (os old_world) ''/results/t1/flows.jsonl'' = Some (''old'' @ [CHR 0x0A])"
    and n: "nothing_pending (self old_world)"
    by (simp_all add: old_world_def idle_world_def nothing_pending_def)
  have p: "files (os pending_world) ''/results/flows.jsonl'' = Some []"
    by (simp add: pending_world_def idle_world_def plain_os_def)
  from files_only_grow [OF h, of "''/results/t1/flows.jsonl''" "''t1''" example_request] h n
       line_appended_after_switch flushed_by_switch p
  show ?thesis by simp
qed

subsection \<open>No validation of the task id in the writer\<close>

text \<open>
  Claim C10. \<^verbatim>\<open>set_output_task\<close> accepts every string: whether it returns depends
  only on the operating system accepting the directory and the file, and when it returns,
  the task id is the string as given and the output path is \<^verbatim>\<open>/results/\<close>, the string
  and \<^verbatim>\<open>/flows.jsonl\<close>, put together as they are. So the id \<^verbatim>\<open>a/b\<close> puts the file
  one directory deeper, \<^verbatim>\<open>../x\<close> names a directory outside \<^verbatim>\<open>/results\<close>, and the empty
  id names a file directly in \<^verbatim>\<open>/results\<close>. Only the handler of
  \<^verbatim>\<open>POST /set_output\<close> rejects a missing or empty id.
\<close>

theorem set_output_task_takes_any_string:
  "(fst (set_output_task t w) = Returned () \<longleftrightarrow>
      \<not> mkdir_refused (os w) (path_parent (''/results/'' @ t @ ''/flows.jsonl'')) \<and>
      \<not> open_refused (os w) (''/results/'' @ t @ ''/flows.jsonl'')) \<and>
   (fst (set_output_task t w) = Returned () \<longrightarrow>
      self (snd (set_output_task t w)) =
        \<lparr>current_task_id = Some t,
         current_file_path = Some (''/results/'' @ t @ ''/flows.jsonl''),
         file_attr = Some \<lparr>f_name = ''/results/'' @ t @ ''/flows.jsonl'', f_closed = False,
                           f_pending = []\<rparr>\<rparr>) \<and>
   path_parent (''/results/'' @ ''a/b'' @ ''/flows.jsonl'') = ''/results/a/b'' \<and>
   path_parent (''/results/'' @ ''../x'' @ ''/flows.jsonl'') = ''/results/../x'' \<and>
   path_parent (''/results/'' @ [] @ ''/flows.jsonl'') = ''/results'' \<and>
   do_POST \<lparr>http_path = ''/set_output'', http_body = Object None\<rparr> w =
     (\<lparr>status = 400, body = Some [(''error'', JStr ''task_id required'')]\<rparr>, w) \<and>
   do_POST \<lparr>http_path = ''/set_output'', http_body = Object (Some [])\<rparr> w =
     (\<lparr>status = 400, body = Some [(''error'', JStr ''task_id required'')]\<rparr>, w)"
proof -
  have p: "path_parent (''/results/'' @ ''a/b'' @ ''/flows.jsonl'') = ''/results/a/b''"
     "path_parent (''/results/'' @ ''../x'' @ ''/flows.jsonl'') = ''/results/../x''"
     "path_parent (''/results/'' @ [] @ ''/flows.jsonl'') = ''/results''"
    by (simp_all add: path_parent_def path_parts_def path_root_def render_path_def)
  have s: "fst (set_output_task t w) = Returned () \<longleftrightarrow>
      \<not> mkdir_refused (os w) (path_parent (''/results/'' @ t @ ''/flows.jsonl'')) \<and>
      \<not> open_refused (os w) (''/results/'' @ t @ ''/flows.jsonl'')"
    by (simp add: fst_set_output_task switch_refused_def task_output_path_def)
  have i: "fst (set_output_task t w) = Returned () \<longrightarrow>
      self (snd (set_output_task t w)) =
        \<lparr>current_task_id = Some t,
         current_file_path = Some (''/results/'' @ t @ ''/flows.jsonl''),
         file_attr = Some \<lparr>f_name = ''/results/'' @ t @ ''/flows.jsonl'', f_closed = False,
                           f_pending = []\<rparr>\<rparr>"
    by (simp add: fst_set_output_task self_set_output_task task_output_path_def)
  have h: "do_POST \<lparr>http_path = ''/set_output'', http_body = Object None\<rparr> w =
     (\<lparr>status = 400, body = Some [(''error'', JStr ''task_id required'')]\<rparr>, w)"
    "do_POST \<lparr>http_path = ''/set_output'', http_body = Object (Some [])\<rparr> w =
     (\<lparr>status = 400, body = Some [(''error'', JStr ''task_id required'')]\<rparr>, w)"
    by (simp_all add: do_POST_set_output truthy_def)
  from p s i h show ?thesis by blast
qed

theorem set_output_task_takes_any_string_witness:
  "fst (set_output_task [] idle_world) = Returned () \<and>
   get_current_task (snd (set_output_task [] idle_world)) = (Some [], Some ''/results//flows.jsonl'') \<and>
   fst (set_output_task ''../x'' idle_world) = Returned () \<and>
   get_current_task (snd (set_output_task ''../x'' idle_world)) =
     (Some ''../x'', Some ''/results/../x/flows.jsonl'') \<and>
   ''/results/../x'' \<in> dirs (os (snd (set_output_task ''../x'' idle_world)))"
proof -
  have a: "fst (set_output_task [] idle_world) = Returned ()"
    and b: "fst (set_output_task ''../x'' idle_world) = Returned ()"
    by (simp_all add: fst_set_output_task)
  have d: "''/results/../x'' \<in> dirs (os (snd (set_output_task ''../x'' idle_world)))"
    by (simp add: set_output_task_unfold fst_open_file print_def open_file_def mkdir_parent_def
        open_append_def close_quietly_def close_file_def Let_def task_output_path_def
        path_parent_def dir_chain_def path_parts_def path_root_def render_path_def
        idle_world_def plain_os_def)
  from set_output_task_takes_any_string [of "[]" idle_world] set_output_task_takes_any_string [of "''../x''" idle_world] a b d
  show ?thesis by (simp add: get_current_task_def)
qed

end
